theory Spec2Isabelle
  imports Main
begin

section \<open>Python values, exceptions and the process-execution primitive\<close>

text \<open>
  The program is a single Python script, \<^verbatim>\<open>front-net-ctrl.py\<close>. Everything it does goes
  through \<^verbatim>\<open>subprocess.run(cmd, capture_output=True, text=True)\<close>, which either returns a
  \<^verbatim>\<open>CompletedProcess\<close> (return code, captured stdout, captured stderr) or raises.

  The exceptions below are the Python classes that matter for the script's
  \<^verbatim>\<open>except subprocess.SubprocessError\<close> clauses. In Python's class hierarchy
  \<^verbatim>\<open>CalledProcessError\<close> and \<^verbatim>\<open>TimeoutExpired\<close> derive from
  \<^verbatim>\<open>subprocess.SubprocessError\<close>; \<^verbatim>\<open>FileNotFoundError\<close> and
  \<^verbatim>\<open>PermissionError\<close> derive from \<^verbatim>\<open>OSError\<close>, which does not derive from
  \<^verbatim>\<open>SubprocessError\<close>. A program that cannot be started (not on the PATH, not
  executable) makes \<^verbatim>\<open>subprocess.run\<close> raise one of the \<^verbatim>\<open>OSError\<close> classes.
  With \<^verbatim>\<open>text=True\<close> a captured output that cannot be decoded makes it raise
  \<^verbatim>\<open>UnicodeDecodeError\<close>, a \<^verbatim>\<open>ValueError\<close>.
  Each exception carries its message, which is what \<^verbatim>\<open>str(e)\<close> gives.
\<close>

datatype exn =
    SubprocessError string
  | CalledProcessError string
  | TimeoutExpired string
  | FileNotFoundError string
  | PermissionError string
  | OSError string
  | TypeError string
  | ValueError string

text \<open>\<^verbatim>\<open>isinstance(e, subprocess.SubprocessError)\<close>: what the except clauses of the script catch.\<close>

fun is_SubprocessError :: "exn \<Rightarrow> bool" where
  "is_SubprocessError (SubprocessError m) = True"
| "is_SubprocessError (CalledProcessError m) = True"
| "is_SubprocessError (TimeoutExpired m) = True"
| "is_SubprocessError (FileNotFoundError m) = False"
| "is_SubprocessError (PermissionError m) = False"
| "is_SubprocessError (OSError m) = False"
| "is_SubprocessError (TypeError m) = False"
| "is_SubprocessError (ValueError m) = False"

fun str_exn :: "exn \<Rightarrow> string" where
  "str_exn (SubprocessError m) = m"
| "str_exn (CalledProcessError m) = m"
| "str_exn (TimeoutExpired m) = m"
| "str_exn (FileNotFoundError m) = m"
| "str_exn (PermissionError m) = m"
| "str_exn (OSError m) = m"
| "str_exn (TypeError m) = m"
| "str_exn (ValueError m) = m"

record completed_process =
  returncode :: int
  stdout :: string
  stderr :: string

text \<open>
  The operating system is a parameter: a runner takes the state of the world and an argv
  and gives the outcome of starting that program there (an exception, or the completed
  process) together with the world afterwards.
\<close>

type_synonym 'w runner = "'w \<Rightarrow> string list \<Rightarrow> (exn + completed_process) \<times> 'w"

text \<open>
  What the script can observe and change: the world behind the runner, the argv of every
  process it tried to start (in order), and the lines it printed to standard output and
  to standard error (one entry for each \<^verbatim>\<open>print\<close> call).
\<close>

record 'w sys =
  world :: 'w
  issued :: "string list list"
  out_lines :: "string list"
  err_lines :: "string list"

definition print_out :: "string \<Rightarrow> 'w sys \<Rightarrow> 'w sys" where
  "print_out l s = s\<lparr>out_lines := out_lines s @ [l]\<rparr>"

definition print_err :: "string \<Rightarrow> 'w sys \<Rightarrow> 'w sys" where
  "print_err l s = s\<lparr>err_lines := err_lines s @ [l]\<rparr>"

text \<open>
  An option of the command line that was not given is \<^verbatim>\<open>None\<close> in the namespace
  of \<^verbatim>\<open>argparse\<close>, so the script's values are \<open>string option\<close>. An f-string writes
  \<^verbatim>\<open>None\<close> as the text \<^verbatim>\<open>None\<close>.
\<close>

fun fmt :: "string option \<Rightarrow> string" where
  "fmt None = ''None''"
| "fmt (Some x) = x"

fun argv_strs :: "string option list \<Rightarrow> string list option" where
  "argv_strs [] = Some []"
| "argv_strs (None # xs) = None"
| "argv_strs (Some x # xs) = map_option ((#) x) (argv_strs xs)"

text \<open>
  \<^verbatim>\<open>subprocess.run(cmd, capture_output=True, text=True)\<close>. An argv holding \<^verbatim>\<open>None\<close> is
  refused with a \<^verbatim>\<open>TypeError\<close> before any process is started; otherwise the runner
  decides, and the attempt is recorded.
\<close>

definition subprocess_run ::
  "'w runner \<Rightarrow> string option list \<Rightarrow> 'w sys \<Rightarrow> (exn + completed_process) \<times> 'w sys" where
  "subprocess_run run cmd s =
     (case argv_strs cmd of
        None \<Rightarrow> (Inl (TypeError ''expected str, bytes or os.PathLike object, not NoneType''), s)
      | Some argv \<Rightarrow>
          (case run (world s) argv of
             (r, w') \<Rightarrow> (r, s\<lparr>world := w', issued := issued s @ [argv]\<rparr>)))"

text \<open>\<^verbatim>\<open>' '.join(cmd)\<close>\<close>

fun join_sp :: "string list \<Rightarrow> string" where
  "join_sp [] = []"
| "join_sp [x] = x"
| "join_sp (x # y # ys) = x @ '' '' @ join_sp (y # ys)"

section \<open>Bandwidth mode\<close>

text \<open>
  \<^verbatim>\<open>configure_interface(iface, bandwidth)\<close>, lines 44 to 70. The first \<^verbatim>\<open>try\<close> returns
  \<^verbatim>\<open>True\<close> when the change left stderr empty, falls through to the add when stderr is
  not empty or a \<^verbatim>\<open>SubprocessError\<close> was raised, and lets any other exception
  propagate. The second \<^verbatim>\<open>try\<close> is \<open>try_add\<close>.
\<close>

definition configure_interface ::
  "'w runner \<Rightarrow> string option \<Rightarrow> string option \<Rightarrow> 'w sys \<Rightarrow> (exn + bool) \<times> 'w sys" where
  "configure_interface run iface bandwidth s =
     (let change_cmd = [Some ''tc'', Some ''qdisc'', Some ''change'', Some ''dev'', iface,
                        Some ''root'', Some ''tbf'', Some ''rate'', Some (fmt bandwidth @ ''mbit''),
                        Some ''burst'', Some ''256mbit'', Some ''latency'', Some ''600ms''];
          add_cmd = [Some ''tc'', Some ''qdisc'', Some ''add'', Some ''dev'', iface,
                     Some ''root'', Some ''tbf'', Some ''rate'', Some (fmt bandwidth @ ''mbit''),
                     Some ''burst'', Some ''256mbit'', Some ''latency'', Some ''600ms''];
          try_add = (\<lambda>s1.
            case subprocess_run run add_cmd s1 of
              (Inr result, s2) \<Rightarrow>
                if stderr result = []
                then (Inr True, print_out (''Successfully added bandwidth limit for '' @ fmt iface) s2)
                else (Inr False,
                      print_err (''Error configuring '' @ fmt iface @ '': '' @ stderr result) s2)
            | (Inl e, s2) \<Rightarrow>
                if is_SubprocessError e
                then (Inr False,
                      print_err (''Error executing command for '' @ fmt iface @ '': '' @ str_exn e) s2)
                else (Inl e, s2))
      in case subprocess_run run change_cmd s of
           (Inr result, s1) \<Rightarrow>
             if stderr result = []
             then (Inr True, print_out (''Successfully modified bandwidth for '' @ fmt iface) s1)
             else try_add s1
         | (Inl e, s1) \<Rightarrow> if is_SubprocessError e then try_add s1 else (Inl e, s1))"

text \<open>The namespace that \<^verbatim>\<open>parser.parse_args()\<close> returns.\<close>

record args =
  mode :: string
  iface1 :: "string option"
  bw1 :: "string option"
  iface2 :: "string option"
  bw2 :: "string option"
  subflow_ip :: "string option"
  subflow_iface :: "string option"

text \<open>\<^verbatim>\<open>handle_bandwidth_mode(args)\<close>, lines 72 to 78.\<close>

definition handle_bandwidth_mode :: "'w runner \<Rightarrow> args \<Rightarrow> 'w sys \<Rightarrow> (exn + bool) \<times> 'w sys" where
  "handle_bandwidth_mode run a s =
     (let success = True in
      case configure_interface run (iface1 a) (bw1 a) s of
        (Inl e, s1) \<Rightarrow> (Inl e, s1)
      | (Inr r1, s1) \<Rightarrow>
          (let success = (if \<not> r1 then False else success) in
           case configure_interface run (iface2 a) (bw2 a) s1 of
             (Inl e, s2) \<Rightarrow> (Inl e, s2)
           | (Inr r2, s2) \<Rightarrow>
               (let success = (if \<not> r2 then False else success) in (Inr success, s2))))"

section \<open>MPTCP modes\<close>

text \<open>
  The \<^verbatim>\<open>for cmd in ...\<close> loop, which is the same text in
  \<^verbatim>\<open>handle_mptcp_client_mode\<close> (lines 88 to 98) and in \<^verbatim>\<open>handle_mptcp_server_mode\<close>
  (lines 113 to 123), with the \<^verbatim>\<open>success\<close> variable as an accumulator. The join is
  reached only after \<^verbatim>\<open>subprocess.run\<close> accepted the argv, so every element is a string
  there.
\<close>

fun run_commands ::
  "'w runner \<Rightarrow> string option list list \<Rightarrow> bool \<Rightarrow> 'w sys \<Rightarrow> (exn + bool) \<times> 'w sys" where
  "run_commands run [] success s = (Inr success, s)"
| "run_commands run (cmd # cmds) success s =
     (case subprocess_run run cmd s of
        (Inr result, s1) \<Rightarrow>
          if stderr result \<noteq> []
          then run_commands run cmds False
                 (print_err (''Error executing '' @ join_sp (map fmt cmd) @ '': '' @ stderr result) s1)
          else run_commands run cmds success
                 (print_out (''Successfully executed: '' @ join_sp (map fmt cmd)) s1)
      | (Inl e, s1) \<Rightarrow>
          if is_SubprocessError e
          then run_commands run cmds False
                 (print_err (''Command failed '' @ join_sp (map fmt cmd) @ '': '' @ str_exn e) s1)
          else (Inl e, s1))"

definition handle_mptcp_client_mode :: "'w runner \<Rightarrow> args \<Rightarrow> 'w sys \<Rightarrow> (exn + bool) \<times> 'w sys" where
  "handle_mptcp_client_mode run a s =
     (let s0 = print_out ''Configuring MPTCP client mode...'' s;
          commands = [
            [Some ''ip'', Some ''mptcp'', Some ''limits'', Some ''set'', Some ''subflow'', Some ''2''],
            [Some ''ip'', Some ''mptcp'', Some ''limits'', Some ''set'', Some ''add_addr_accepted'', Some ''2'']]
      in run_commands run commands True s0)"

definition handle_mptcp_server_mode :: "'w runner \<Rightarrow> args \<Rightarrow> 'w sys \<Rightarrow> (exn + bool) \<times> 'w sys" where
  "handle_mptcp_server_mode run a s =
     (let s0 = print_out ''Configuring MPTCP server mode...'' s;
          subflow_cmd = [Some ''ip'', Some ''mptcp'', Some ''limits'', Some ''set'', Some ''subflow'', Some ''2''];
          endpoint_cmd = [Some ''ip'', Some ''mptcp'', Some ''endpoint'', Some ''add'', subflow_ip a,
                          Some ''dev'', subflow_iface a, Some ''signal'']
      in run_commands run [subflow_cmd, endpoint_cmd] True s0)"

section \<open>The entry point\<close>

text \<open>
  Python's truth value of an option of the command line: \<^verbatim>\<open>None\<close> and the empty string
  are false.
\<close>

fun truthy :: "string option \<Rightarrow> bool" where
  "truthy None = False"
| "truthy (Some x) = (x \<noteq> [])"

text \<open>
  How the process ends: \<^verbatim>\<open>sys.exit(n)\<close> (which \<^verbatim>\<open>parser.error\<close> calls with 2), or an
  exception that nothing caught, on which the interpreter prints a traceback and exits
  with status 1.
\<close>

datatype ending = Exited nat | Uncaught exn

fun exit_code :: "ending \<Rightarrow> nat" where
  "exit_code (Exited n) = n"
| "exit_code (Uncaught e) = 1"

text \<open>
  \<^verbatim>\<open>parser.error(message)\<close> writes the usage text and the message to standard error and
  exits with status 2. Only the message is kept here (the usage text and the program
  name that \<^verbatim>\<open>argparse\<close> puts before it are left out).
\<close>

definition parser_error :: "string \<Rightarrow> 'w sys \<Rightarrow> ending \<times> 'w sys" where
  "parser_error msg s = (Exited 2, print_err msg s)"

text \<open>
  Lines 169 to 175, "Validate mode-specific arguments": the message of the
  \<^verbatim>\<open>parser.error\<close> call that is reached, if one is.
\<close>

definition validate_args :: "args \<Rightarrow> string option" where
  "validate_args a =
     (if mode a = ''bandwidth'' then
        (if \<not> list_all truthy [iface1 a, bw1 a, iface2 a, bw2 a]
         then Some ''bandwidth mode requires --iface1, --bw1, --iface2, and --bw2 arguments''
         else None)
      else if mode a = ''mptcp-server'' then
        (if \<not> truthy (subflow_ip a) \<or> \<not> truthy (subflow_iface a)
         then Some ''mptcp-server mode requires --subflow-ip and --subflow-iface arguments''
         else None)
      else None)"

text \<open>Lines 177 to 184, "Handle different modes", with \<^verbatim>\<open>success = False\<close> to start.\<close>

definition handle_mode :: "'w runner \<Rightarrow> args \<Rightarrow> 'w sys \<Rightarrow> (exn + bool) \<times> 'w sys" where
  "handle_mode run a s =
     (if mode a = ''bandwidth'' then handle_bandwidth_mode run a s
      else if mode a = ''mptcp-client'' then handle_mptcp_client_mode run a s
      else if mode a = ''mptcp-server'' then handle_mptcp_server_mode run a s
      else (Inr False, s))"

text \<open>
  \<^verbatim>\<open>main()\<close> from the namespace on: validation, the handler of the mode, then
  \<^verbatim>\<open>sys.exit(0 if success else 1)\<close>.
\<close>

definition main :: "'w runner \<Rightarrow> args \<Rightarrow> 'w sys \<Rightarrow> ending \<times> 'w sys" where
  "main run a s =
     (case validate_args a of
        Some msg \<Rightarrow> parser_error msg s
      | None \<Rightarrow>
          (case handle_mode run a s of
             (Inl e, s') \<Rightarrow> (Uncaught e, s')
           | (Inr success, s') \<Rightarrow> (Exited (if success then 0 else 1), s')))"

section \<open>Vocabulary for the statements\<close>




text \<open>The two argv that \<open>configure_interface\<close> builds for an interface and a bandwidth.\<close>

abbreviation change_argv :: "string \<Rightarrow> string \<Rightarrow> string list" where
  "change_argv iface bw \<equiv>
     [''tc'', ''qdisc'', ''change'', ''dev'', iface, ''root'', ''tbf'',
      ''rate'', bw @ ''mbit'', ''burst'', ''256mbit'', ''latency'', ''600ms'']"

abbreviation add_argv :: "string \<Rightarrow> string \<Rightarrow> string list" where
  "add_argv iface bw \<equiv>
     [''tc'', ''qdisc'', ''add'', ''dev'', iface, ''root'', ''tbf'',
      ''rate'', bw @ ''mbit'', ''burst'', ''256mbit'', ''latency'', ''600ms'']"

section \<open>Concrete machines and command lines\<close>

text \<open>A fresh run: nothing started, nothing printed.\<close>

definition start :: "unit sys" where
  "start = \<lparr>world = (), issued = [], out_lines = [], err_lines = []\<rparr>"

text \<open>
  A machine on which the external tool is not installed: \<^verbatim>\<open>subprocess.run\<close> raises
  \<^verbatim>\<open>FileNotFoundError\<close> for every argv.
\<close>

definition tool_missing :: "unit runner" where
  "tool_missing w argv = (Inl (FileNotFoundError ''[Errno 2] No such file or directory''), w)"


text \<open>
  Two machines on which every command completes and writes nothing to standard error;
  they differ in the return code and in what is written to standard output.
\<close>

definition tool_quiet :: "unit runner" where
  "tool_quiet w argv = (Inr \<lparr>returncode = 0, stdout = [], stderr = []\<rparr>, w)"


text \<open>
  A machine on which every command completes with return code 0 and a complaint on
  standard error.
\<close>

definition tool_complains :: "unit runner" where
  "tool_complains w argv =
     (Inr \<lparr>returncode = 0, stdout = [], stderr = ''RTNETLINK answers: Operation not permitted''\<rparr>, w)"



text \<open>
  A small \<^verbatim>\<open>tc\<close>: the world is the list of interfaces that have a root queue
  discipline. A change on an interface without one and an add on an interface with one
  complain on standard error; an add on an interface without one installs it.
\<close>

fun tc_model :: "string list runner" where
  "tc_model shaped (t # q # opn # d # iface # rest) =
     (if opn = ''change'' then
        (if iface \<in> set shaped
         then (Inr \<lparr>returncode = 0, stdout = [], stderr = []\<rparr>, shaped)
         else (Inr \<lparr>returncode = 2, stdout = [], stderr = ''Error: Qdisc not found.''\<rparr>, shaped))
      else if opn = ''add'' then
        (if iface \<in> set shaped
         then (Inr \<lparr>returncode = 2, stdout = [], stderr = ''Error: Exclusivity flag on.''\<rparr>, shaped)
         else (Inr \<lparr>returncode = 0, stdout = [], stderr = []\<rparr>, iface # shaped))
      else (Inr \<lparr>returncode = 0, stdout = [], stderr = []\<rparr>, shaped))"
| "tc_model shaped argv = (Inr \<lparr>returncode = 0, stdout = [], stderr = []\<rparr>, shaped)"

text \<open>The command lines of the usage text.\<close>

definition bandwidth_args :: args where
  "bandwidth_args = \<lparr>mode = ''bandwidth'', iface1 = Some ''eth0'', bw1 = Some ''100'',
     iface2 = Some ''eth1'', bw2 = Some ''50'', subflow_ip = None, subflow_iface = None\<rparr>"

definition client_args :: args where
  "client_args = \<lparr>mode = ''mptcp-client'', iface1 = None, bw1 = None, iface2 = None,
     bw2 = None, subflow_ip = None, subflow_iface = None\<rparr>"

definition server_args :: args where
  "server_args = \<lparr>mode = ''mptcp-server'', iface1 = None, bw1 = None, iface2 = None,
     bw2 = None, subflow_ip = Some ''192.168.1.100'', subflow_iface = Some ''eth0''\<rparr>"

text \<open>Command lines with a bandwidth that is no number, and with a field left out or empty.\<close>

definition odd_bandwidth_args :: args where
  "odd_bandwidth_args = \<lparr>mode = ''bandwidth'', iface1 = Some ''eth0'', bw1 = Some ''abc'',
     iface2 = Some ''eth1'', bw2 = Some ''-5'', subflow_ip = None, subflow_iface = None\<rparr>"

definition no_bw2_args :: args where
  "no_bw2_args = \<lparr>mode = ''bandwidth'', iface1 = Some ''eth0'', bw1 = Some ''100'',
     iface2 = Some ''eth1'', bw2 = None, subflow_ip = None, subflow_iface = None\<rparr>"

definition empty_ip_args :: args where
  "empty_ip_args = \<lparr>mode = ''mptcp-server'', iface1 = None, bw1 = None, iface2 = None,
     bw2 = None, subflow_ip = Some [], subflow_iface = Some ''eth0''\<rparr>"

section \<open>Basic facts\<close>

lemma world_print_out [simp]: "world (print_out l s) = world s"
  by (simp add: print_out_def)

lemma world_print_err [simp]: "world (print_err l s) = world s"
  by (simp add: print_err_def)

lemma issued_print_out [simp]: "issued (print_out l s) = issued s"
  by (simp add: print_out_def)

lemma issued_print_err [simp]: "issued (print_err l s) = issued s"
  by (simp add: print_err_def)

lemma truthy_iff: "truthy x \<longleftrightarrow> x \<notin> {None, Some []}"
  by (cases x) auto

lemma argv_strs_map_Some [simp]: "argv_strs (map Some ws) = Some ws"
  by (induction ws) auto

text \<open>One call of \<open>subprocess_run\<close> on an argv of strings: the runner's answer, recorded.\<close>

lemma subprocess_run_strs:
  assumes "argv_strs cmd = Some argv" and "run (world s) argv = (r, w')"
  shows "subprocess_run run cmd s = (r, s\<lparr>world := w', issued := issued s @ [argv]\<rparr>)"
  using assms by (simp add: subprocess_run_def)

section \<open>Bandwidth mode: what the code does\<close>

text \<open>
  When the change completes and leaves standard error empty, nothing else is started and
  the interface is done, whatever the return code and the standard output were.
\<close>

lemma configure_interface_change_clean:
  assumes "run (world s) (change_argv iface bw) = (Inr c, w1)" and "stderr c = []"
  shows "configure_interface run (Some iface) (Some bw) s =
           (Inr True,
            print_out (''Successfully modified bandwidth for '' @ iface)
              (s\<lparr>world := w1, issued := issued s @ [change_argv iface bw]\<rparr>))"
  using assms by (simp add: configure_interface_def subprocess_run_def)

text \<open>
  When the change completes with text on standard error, or raises a
  \<^verbatim>\<open>SubprocessError\<close>, the add is started once, with the same rate, burst and latency.
  When the add completes, or raises a \<^verbatim>\<open>SubprocessError\<close>, the interface succeeds
  exactly if the add completed with nothing on standard error.
\<close>

lemma configure_interface_fallback:
  assumes chg: "run (world s) (change_argv iface bw) = (r1, w1)"
    and failed: "case r1 of Inr c \<Rightarrow> stderr c \<noteq> [] | Inl e \<Rightarrow> is_SubprocessError e"
    and add: "run w1 (add_argv iface bw) = (r2, w2)"
    and handled: "case r2 of Inr c \<Rightarrow> True | Inl e \<Rightarrow> is_SubprocessError e"
  shows "fst (configure_interface run (Some iface) (Some bw) s) =
           Inr (case r2 of Inr c \<Rightarrow> stderr c = [] | Inl e \<Rightarrow> False)"
    and "issued (snd (configure_interface run (Some iface) (Some bw) s)) =
           issued s @ [change_argv iface bw, add_argv iface bw]"
    and "world (snd (configure_interface run (Some iface) (Some bw) s)) = w2"
  using assms
  by (auto simp: configure_interface_def subprocess_run_def split: sum.splits)

text \<open>
  An exception that is no \<^verbatim>\<open>SubprocessError\<close> leaves \<open>configure_interface\<close> at the
  invocation that raised it.
\<close>

lemma configure_interface_change_raises:
  assumes "run (world s) (change_argv iface bw) = (Inl e, w1)" and "\<not> is_SubprocessError e"
  shows "configure_interface run (Some iface) (Some bw) s =
           (Inl e, s\<lparr>world := w1, issued := issued s @ [change_argv iface bw]\<rparr>)"
  using assms by (simp add: configure_interface_def subprocess_run_def)

text \<open>Whatever the machine does, the change comes first and at most the add follows.\<close>

lemma configure_interface_issued:
  "issued (snd (configure_interface run (Some iface) (Some bw) s)) = issued s @ [change_argv iface bw]
   \<or> issued (snd (configure_interface run (Some iface) (Some bw) s)) =
        issued s @ [change_argv iface bw, add_argv iface bw]"
proof -
  obtain r1 w1 where chg: "run (world s) (change_argv iface bw) = (r1, w1)"
    by (cases "run (world s) (change_argv iface bw)")
  obtain r2 w2 where add: "run w1 (add_argv iface bw) = (r2, w2)"
    by (cases "run w1 (add_argv iface bw)")
  show ?thesis
    using chg add
    by (cases r1; cases r2) (simp_all add: configure_interface_def subprocess_run_def)
qed

lemma handle_bandwidth_mode_issued:
  assumes "iface1 a = Some i1" "bw1 a = Some b1" "iface2 a = Some i2" "bw2 a = Some b2"
  shows "\<exists>rest. issued (snd (handle_bandwidth_mode run a s)) = issued s @ change_argv i1 b1 # rest
           \<and> set rest \<subseteq> {add_argv i1 b1, change_argv i2 b2, add_argv i2 b2}"
proof -
  obtain r1 s1 where c1: "configure_interface run (Some i1) (Some b1) s = (r1, s1)"
    by (cases "configure_interface run (Some i1) (Some b1) s")
  obtain r2 s2 where c2: "configure_interface run (Some i2) (Some b2) s1 = (r2, s2)"
    by (cases "configure_interface run (Some i2) (Some b2) s1")
  from configure_interface_issued [of run i1 b1 s] c1
  have t1: "issued s1 = issued s @ [change_argv i1 b1]
            \<or> issued s1 = issued s @ [change_argv i1 b1, add_argv i1 b1]"
    by simp
  from configure_interface_issued [of run i2 b2 s1] c2
  have t2: "issued s2 = issued s1 @ [change_argv i2 b2]
            \<or> issued s2 = issued s1 @ [change_argv i2 b2, add_argv i2 b2]"
    by simp
  have out: "issued (snd (handle_bandwidth_mode run a s)) = issued s1
             \<or> issued (snd (handle_bandwidth_mode run a s)) = issued s2"
    using assms c1 c2 by (cases r1; cases r2) (simp_all add: handle_bandwidth_mode_def)
  from out show ?thesis
  proof
    assume "issued (snd (handle_bandwidth_mode run a s)) = issued s1"
    with t1 show ?thesis by auto
  next
    assume "issued (snd (handle_bandwidth_mode run a s)) = issued s2"
    with t1 t2 show ?thesis by auto
  qed
qed

text \<open>
  Both interfaces in argument order, the second from the state the first left, and the
  conjunction of the two results, when neither call ends in an exception.
\<close>

lemma handle_bandwidth_mode_both:
  assumes "configure_interface run (iface1 a) (bw1 a) s = (Inr r1, s1)"
    and "configure_interface run (iface2 a) (bw2 a) s1 = (Inr r2, s2)"
  shows "handle_bandwidth_mode run a s = (Inr (r1 \<and> r2), s2)"
  using assms by (simp add: handle_bandwidth_mode_def)

text \<open>
  The example of the usage text on the small \<^verbatim>\<open>tc\<close>, with no queue discipline on
  either interface yet: change and add for eth0 at 100mbit, then change and add for
  eth1 at 50mbit, and exit code 0.
\<close>

lemma bandwidth_example:
  "main tc_model bandwidth_args \<lparr>world = [], issued = [], out_lines = [], err_lines = []\<rparr> =
     (Exited 0,
      \<lparr>world = [''eth1'', ''eth0''],
       issued = [change_argv ''eth0'' ''100'', add_argv ''eth0'' ''100'',
                 change_argv ''eth1'' ''50'', add_argv ''eth1'' ''50''],
       out_lines = [''Successfully added bandwidth limit for eth0'',
                    ''Successfully added bandwidth limit for eth1''],
       err_lines = []\<rparr>)"
  by (simp add: main_def validate_args_def handle_mode_def handle_bandwidth_mode_def
      configure_interface_def subprocess_run_def bandwidth_args_def print_out_def)

section \<open>MPTCP modes: what the code does\<close>

text \<open>
  One turn of the loop on an invocation that completes or raises a
  \<^verbatim>\<open>SubprocessError\<close>: the loop goes on with the remaining commands, and the
  accumulator stays as it was exactly if the command completed with nothing on standard
  error. The return code and the standard output are not looked at.
\<close>

lemma run_commands_handled:
  assumes "argv_strs cmd = Some argv" and "run (world s) argv = (r, w1)"
    and "case r of Inr c \<Rightarrow> True | Inl e \<Rightarrow> is_SubprocessError e"
  shows "\<exists>s1. run_commands run (cmd # cmds) acc s =
                run_commands run cmds
                  (acc \<and> (case r of Inr c \<Rightarrow> stderr c = [] | Inl e \<Rightarrow> False)) s1
              \<and> world s1 = w1 \<and> issued s1 = issued s @ [argv]"
  using assms by (cases r) (auto simp: subprocess_run_def)

text \<open>One turn of the loop on any other exception: the loop is left, the rest is not run.\<close>

lemma run_commands_raises:
  assumes "argv_strs cmd = Some argv" and "run (world s) argv = (Inl e, w1)"
    and "\<not> is_SubprocessError e"
  shows "run_commands run (cmd # cmds) acc s =
           (Inl e, s\<lparr>world := w1, issued := issued s @ [argv]\<rparr>)"
  using assms by (simp add: subprocess_run_def)

lemma handle_mptcp_client_mode_handled:
  assumes "run (world s) [''ip'', ''mptcp'', ''limits'', ''set'', ''subflow'', ''2''] = (r1, w1)"
    and "run w1 [''ip'', ''mptcp'', ''limits'', ''set'', ''add_addr_accepted'', ''2''] = (r2, w2)"
    and "case r1 of Inr c \<Rightarrow> True | Inl e \<Rightarrow> is_SubprocessError e"
    and "case r2 of Inr c \<Rightarrow> True | Inl e \<Rightarrow> is_SubprocessError e"
  shows "fst (handle_mptcp_client_mode run a s) =
           Inr ((case r1 of Inr c \<Rightarrow> stderr c = [] | Inl e \<Rightarrow> False) \<and>
                (case r2 of Inr c \<Rightarrow> stderr c = [] | Inl e \<Rightarrow> False))
       \<and> issued (snd (handle_mptcp_client_mode run a s)) =
           issued s @ [[''ip'', ''mptcp'', ''limits'', ''set'', ''subflow'', ''2''],
                       [''ip'', ''mptcp'', ''limits'', ''set'', ''add_addr_accepted'', ''2'']]
       \<and> world (snd (handle_mptcp_client_mode run a s)) = w2"
  using assms
  by (cases r1; cases r2) (simp_all add: handle_mptcp_client_mode_def subprocess_run_def Let_def)

lemma handle_mptcp_server_mode_handled:
  assumes "subflow_ip a = Some ip" and "subflow_iface a = Some dev"
    and "run (world s) [''ip'', ''mptcp'', ''limits'', ''set'', ''subflow'', ''2''] = (r1, w1)"
    and "run w1 [''ip'', ''mptcp'', ''endpoint'', ''add'', ip, ''dev'', dev, ''signal''] = (r2, w2)"
    and "case r1 of Inr c \<Rightarrow> True | Inl e \<Rightarrow> is_SubprocessError e"
    and "case r2 of Inr c \<Rightarrow> True | Inl e \<Rightarrow> is_SubprocessError e"
  shows "fst (handle_mptcp_server_mode run a s) =
           Inr ((case r1 of Inr c \<Rightarrow> stderr c = [] | Inl e \<Rightarrow> False) \<and>
                (case r2 of Inr c \<Rightarrow> stderr c = [] | Inl e \<Rightarrow> False))
       \<and> issued (snd (handle_mptcp_server_mode run a s)) =
           issued s @ [[''ip'', ''mptcp'', ''limits'', ''set'', ''subflow'', ''2''],
                       [''ip'', ''mptcp'', ''endpoint'', ''add'', ip, ''dev'', dev, ''signal'']]
       \<and> world (snd (handle_mptcp_server_mode run a s)) = w2"
  using assms
  by (cases r1; cases r2) (simp_all add: handle_mptcp_server_mode_def subprocess_run_def Let_def)

text \<open>
  The example of the usage text on a machine where every command completes quietly.
\<close>

lemma server_example:
  "main tool_quiet server_args start =
     (Exited 0,
      start\<lparr>issued := [[''ip'', ''mptcp'', ''limits'', ''set'', ''subflow'', ''2''],
                       [''ip'', ''mptcp'', ''endpoint'', ''add'', ''192.168.1.100'', ''dev'', ''eth0'',
                        ''signal'']],
            out_lines := [''Configuring MPTCP server mode...'',
                          ''Successfully executed: ip mptcp limits set subflow 2'',
                          ''Successfully executed: ip mptcp endpoint add 192.168.1.100 dev eth0 signal'']\<rparr>)"
  by (simp add: main_def validate_args_def handle_mode_def handle_mptcp_server_mode_def
      subprocess_run_def server_args_def tool_quiet_def start_def print_out_def)

section \<open>The code against the criterion of the specification\<close>




section \<open>Two runs that differ only in standard output and return codes\<close>







section \<open>The claims of the specification\<close>

text \<open>
  Claim C1. For every interface name and bandwidth value, \<open>configure_interface\<close> first
  runs \<^verbatim>\<open>tc qdisc change dev <iface> root tbf rate <bw>mbit burst 256mbit latency 600ms\<close>;
  with no error output it returns success and runs nothing else; with error output, or
  when the change cannot be invoked, it runs exactly one fallback
  \<^verbatim>\<open>tc qdisc add\<close> with the same rate, burst and latency, and returns success exactly
  if the add launches and produces no error output.

  The parts about error output hold (\<open>configure_interface_change_clean\<close>,
  \<open>configure_interface_fallback\<close>). The part about a change that cannot be invoked does
  not: on a machine without \<^verbatim>\<open>tc\<close> the change raises \<^verbatim>\<open>FileNotFoundError\<close>, which
  the clause \<^verbatim>\<open>except subprocess.SubprocessError\<close> of line 54 does not catch. The
  exception leaves \<open>configure_interface\<close> right after the change: no add is started
  and no result is returned.
\<close>

theorem configure_interface_tool_missing:
  "configure_interface tool_missing (Some ''eth0'') (Some ''100'') start =
     (Inl (FileNotFoundError ''[Errno 2] No such file or directory''),
      start\<lparr>issued := [[''tc'', ''qdisc'', ''change'', ''dev'', ''eth0'', ''root'', ''tbf'',
                        ''rate'', ''100mbit'', ''burst'', ''256mbit'', ''latency'', ''600ms'']]\<rparr>)"
  by (simp add: configure_interface_def subprocess_run_def tool_missing_def start_def)

text \<open>
  Claim C2. In every mode, a command that fails because the external tool cannot be
  started (not found, permission denied) is caught locally, reported for that command,
  counted as a failure of the mode, and does not stop the remaining commands; no error
  leaves the dispatcher.

  On a machine without \<^verbatim>\<open>ip\<close>, the client mode starts its first command, the
  \<^verbatim>\<open>FileNotFoundError\<close> passes the clause \<^verbatim>\<open>except subprocess.SubprocessError\<close> of
  line 96 and leaves \<open>main\<close> uncaught: the second command is never started and no
  line is printed for the failed command.
\<close>

theorem main_client_tool_missing:
  "main tool_missing client_args start =
     (Uncaught (FileNotFoundError ''[Errno 2] No such file or directory''),
      start\<lparr>issued := [[''ip'', ''mptcp'', ''limits'', ''set'', ''subflow'', ''2'']],
            out_lines := [''Configuring MPTCP client mode...''],
            err_lines := []\<rparr>)"
  by (simp add: main_def validate_args_def handle_mode_def handle_mptcp_client_mode_def
      subprocess_run_def tool_missing_def start_def client_args_def print_out_def)



text \<open>
  Claim C4. If the mode is bandwidth and one of the two interfaces or two bandwidths is
  absent or empty, or the mode is mptcp-server and the subflow address or the subflow
  interface is absent or empty, the program ends with a usage error before any external
  command is executed: exit status 2, one message on standard error, no process started
  and the world untouched, on every machine.
\<close>

theorem usage_error_runs_nothing:
  assumes "mode a = ''bandwidth'' \<and>
             (iface1 a \<in> {None, Some []} \<or> bw1 a \<in> {None, Some []} \<or>
              iface2 a \<in> {None, Some []} \<or> bw2 a \<in> {None, Some []})
           \<or> mode a = ''mptcp-server'' \<and>
             (subflow_ip a \<in> {None, Some []} \<or> subflow_iface a \<in> {None, Some []})"
  shows "fst (main run a s) = Exited 2
       \<and> issued (snd (main run a s)) = issued s
       \<and> world (snd (main run a s)) = world s
       \<and> out_lines (snd (main run a s)) = out_lines s
       \<and> (\<exists>msg. err_lines (snd (main run a s)) = err_lines s @ [msg])"
proof -
  from assms obtain msg where "validate_args a = Some msg"
    by (auto simp: validate_args_def truthy_iff)
  then show ?thesis
    by (simp add: main_def parser_error_def print_err_def)
qed

text \<open>A bandwidth command line without \<^verbatim>\<open>--bw2\<close>, and a server one with an empty address.\<close>

theorem usage_error_runs_nothing_witness:
  "(fst (main tool_quiet no_bw2_args start) = Exited 2
      \<and> issued (snd (main tool_quiet no_bw2_args start)) = []
      \<and> out_lines (snd (main tool_quiet no_bw2_args start)) = [])
   \<and> (fst (main tool_quiet empty_ip_args start) = Exited 2
      \<and> issued (snd (main tool_quiet empty_ip_args start)) = []
      \<and> out_lines (snd (main tool_quiet empty_ip_args start)) = [])"
proof -
  have h1: "mode no_bw2_args = ''bandwidth'' \<and>
             (iface1 no_bw2_args \<in> {None, Some []} \<or> bw1 no_bw2_args \<in> {None, Some []} \<or>
              iface2 no_bw2_args \<in> {None, Some []} \<or> bw2 no_bw2_args \<in> {None, Some []})
           \<or> mode no_bw2_args = ''mptcp-server'' \<and>
             (subflow_ip no_bw2_args \<in> {None, Some []} \<or> subflow_iface no_bw2_args \<in> {None, Some []})"
    by (simp add: no_bw2_args_def)
  have h2: "mode empty_ip_args = ''bandwidth'' \<and>
             (iface1 empty_ip_args \<in> {None, Some []} \<or> bw1 empty_ip_args \<in> {None, Some []} \<or>
              iface2 empty_ip_args \<in> {None, Some []} \<or> bw2 empty_ip_args \<in> {None, Some []})
           \<or> mode empty_ip_args = ''mptcp-server'' \<and>
             (subflow_ip empty_ip_args \<in> {None, Some []} \<or> subflow_iface empty_ip_args \<in> {None, Some []})"
    by (simp add: empty_ip_args_def)
  from usage_error_runs_nothing [OF h1, of tool_quiet start]
    usage_error_runs_nothing [OF h2, of tool_quiet start]
  show ?thesis
    by (simp add: start_def)
qed

text \<open>
  Claim C5. In bandwidth mode both interfaces are attempted, the first in argument
  order and then the second, even if the configuration of the first fails entirely, and
  the result of the mode is the conjunction of the two results.

  When both calls return, this is what happens (\<open>handle_bandwidth_mode_both\<close>). When
  the first interface fails because \<^verbatim>\<open>tc\<close> cannot be started, the exception leaves
  \<open>handle_bandwidth_mode\<close> at line 74 and the second interface (eth1 here) is never
  attempted.
\<close>

theorem handle_bandwidth_mode_tool_missing:
  "handle_bandwidth_mode tool_missing bandwidth_args start =
     (Inl (FileNotFoundError ''[Errno 2] No such file or directory''),
      start\<lparr>issued := [[''tc'', ''qdisc'', ''change'', ''dev'', ''eth0'', ''root'', ''tbf'',
                        ''rate'', ''100mbit'', ''burst'', ''256mbit'', ''latency'', ''600ms'']]\<rparr>)"
  by (simp add: handle_bandwidth_mode_def configure_interface_def subprocess_run_def
      tool_missing_def start_def bandwidth_args_def)

text \<open>
  Claim C6. In client mode exactly two commands are issued in a fixed order,
  \<^verbatim>\<open>ip mptcp limits set subflow 2\<close> and then
  \<^verbatim>\<open>ip mptcp limits set add_addr_accepted 2\<close>; both always run whatever the outcome of
  the first, and the result of the mode is the conjunction of the two results.

  When each invocation completes or raises a \<^verbatim>\<open>SubprocessError\<close>, this is what
  happens (\<open>handle_mptcp_client_mode_handled\<close>). When the first command cannot be
  started, the handler stops there: one command is issued, not two.
\<close>

theorem handle_mptcp_client_mode_tool_missing:
  "handle_mptcp_client_mode tool_missing client_args start =
     (Inl (FileNotFoundError ''[Errno 2] No such file or directory''),
      start\<lparr>issued := [[''ip'', ''mptcp'', ''limits'', ''set'', ''subflow'', ''2'']],
            out_lines := [''Configuring MPTCP client mode...'']\<rparr>)"
  by (simp add: handle_mptcp_client_mode_def subprocess_run_def tool_missing_def start_def
      print_out_def)

text \<open>
  Claim C7. In server mode exactly two commands are issued in a fixed order,
  \<^verbatim>\<open>ip mptcp limits set subflow 2\<close> and then
  \<^verbatim>\<open>ip mptcp endpoint add <ip> dev <dev> signal\<close>; the second is always issued, also
  when the first fails, and the result of the mode is the conjunction of the two
  results.

  When each invocation completes or raises a \<^verbatim>\<open>SubprocessError\<close>, this is what
  happens (\<open>handle_mptcp_server_mode_handled\<close>). When the first command fails because
  \<^verbatim>\<open>ip\<close> cannot be started, the endpoint is never added.
\<close>

theorem handle_mptcp_server_mode_tool_missing:
  "handle_mptcp_server_mode tool_missing server_args start =
     (Inl (FileNotFoundError ''[Errno 2] No such file or directory''),
      start\<lparr>issued := [[''ip'', ''mptcp'', ''limits'', ''set'', ''subflow'', ''2'']],
            out_lines := [''Configuring MPTCP server mode...'']\<rparr>)"
  by (simp add: handle_mptcp_server_mode_def subprocess_run_def tool_missing_def start_def
      server_args_def print_out_def)

text \<open>
  Claim C8. For every command line that passes validation, the exit code is 0 exactly
  if the handler of the selected mode returned success, and 1 otherwise (which covers a
  handler that returned failure and one that was left by an exception); a command line
  that fails validation exits with 2, the status of \<^verbatim>\<open>parser.error\<close>.
\<close>

theorem exit_code_of_mode_outcome:
  "(validate_args a = None \<longrightarrow>
      exit_code (fst (main run a s)) = (if fst (handle_mode run a s) = Inr True then 0 else 1)
      \<and> snd (main run a s) = snd (handle_mode run a s))
   \<and> (validate_args a \<noteq> None \<longrightarrow> exit_code (fst (main run a s)) = 2)"
proof (cases "validate_args a")
  case None
  then show ?thesis
    by (cases "handle_mode run a s"; cases "fst (handle_mode run a s)")
       (auto simp: main_def)
next
  case (Some msg)
  then show ?thesis
    by (simp add: main_def parser_error_def)
qed

text \<open>Exit codes 0, 1 and 2 on three runs.\<close>

theorem exit_code_of_mode_outcome_witness:
  "(validate_args server_args = None
      \<and> fst (handle_mode tool_quiet server_args start) = Inr True
      \<and> exit_code (fst (main tool_quiet server_args start)) = 0)
   \<and> (validate_args client_args = None
      \<and> fst (handle_mode tool_complains client_args start) = Inr False
      \<and> exit_code (fst (main tool_complains client_args start)) = 1)
   \<and> (validate_args no_bw2_args \<noteq> None
      \<and> exit_code (fst (main tool_quiet no_bw2_args start)) = 2)"
proof -
  have v1: "validate_args server_args = None"
    by (simp add: validate_args_def server_args_def)
  have o1: "fst (handle_mode tool_quiet server_args start) = Inr True"
    by (simp add: handle_mode_def handle_mptcp_server_mode_def subprocess_run_def
        server_args_def tool_quiet_def)
  have v2: "validate_args client_args = None"
    by (simp add: validate_args_def client_args_def)
  have o2: "fst (handle_mode tool_complains client_args start) = Inr False"
    by (simp add: handle_mode_def handle_mptcp_client_mode_def subprocess_run_def
        client_args_def tool_complains_def)
  have v3: "validate_args no_bw2_args \<noteq> None"
    by (simp add: validate_args_def no_bw2_args_def)
  from exit_code_of_mode_outcome [of server_args tool_quiet start]
    exit_code_of_mode_outcome [of client_args tool_complains start]
    exit_code_of_mode_outcome [of no_bw2_args tool_quiet start]
    v1 o1 v2 o2 v3
  show ?thesis
    by simp
qed

text \<open>
  Claim C9. Bandwidth values are never checked to be numbers. In bandwidth mode
  validation passes exactly if none of the four fields is absent or empty, whatever
  the bandwidth strings are. The processes started are then: the change for the first
  interface with the first bandwidth written as it is before \<^verbatim>\<open>mbit\<close>, at most its
  add with the same rate, and then, whenever the call for the first interface returns,
  the change for the second interface with the second bandwidth written as it is, and
  at most its add with the same rate.
\<close>

theorem bandwidth_not_checked_as_number:
  assumes "mode a = ''bandwidth''"
  shows "(validate_args a = None \<longleftrightarrow>
            iface1 a \<notin> {None, Some []} \<and> bw1 a \<notin> {None, Some []} \<and>
            iface2 a \<notin> {None, Some []} \<and> bw2 a \<notin> {None, Some []})
       \<and> (validate_args a = None \<longrightarrow>
            (\<exists>i1 b1 i2 b2 tail1 tail2.
               iface1 a = Some i1 \<and> bw1 a = Some b1 \<and> iface2 a = Some i2 \<and> bw2 a = Some b2 \<and>
               issued (snd (main run a s)) =
                 issued s @
                 [[''tc'', ''qdisc'', ''change'', ''dev'', i1, ''root'', ''tbf'',
                   ''rate'', b1 @ ''mbit'', ''burst'', ''256mbit'', ''latency'', ''600ms'']] @
                 tail1 @ tail2 \<and>
               (tail1 = [] \<or>
                tail1 = [[''tc'', ''qdisc'', ''add'', ''dev'', i1, ''root'', ''tbf'',
                          ''rate'', b1 @ ''mbit'', ''burst'', ''256mbit'', ''latency'', ''600ms'']]) \<and>
               (tail2 = [] \<or>
                tail2 = [[''tc'', ''qdisc'', ''change'', ''dev'', i2, ''root'', ''tbf'',
                          ''rate'', b2 @ ''mbit'', ''burst'', ''256mbit'', ''latency'', ''600ms'']] \<or>
                tail2 = [[''tc'', ''qdisc'', ''change'', ''dev'', i2, ''root'', ''tbf'',
                          ''rate'', b2 @ ''mbit'', ''burst'', ''256mbit'', ''latency'', ''600ms''],
                         [''tc'', ''qdisc'', ''add'', ''dev'', i2, ''root'', ''tbf'',
                          ''rate'', b2 @ ''mbit'', ''burst'', ''256mbit'', ''latency'', ''600ms'']]) \<and>
               ((\<exists>r t. configure_interface run (Some i1) (Some b1) s = (Inr r, t)) \<longrightarrow>
                  tail2 \<noteq> [])))"
proof -
  have valid: "validate_args a = None \<longleftrightarrow>
            iface1 a \<notin> {None, Some []} \<and> bw1 a \<notin> {None, Some []} \<and>
            iface2 a \<notin> {None, Some []} \<and> bw2 a \<notin> {None, Some []}"
    using assms by (simp add: validate_args_def truthy_iff)
  have trace: "\<exists>i1 b1 i2 b2 tail1 tail2.
               iface1 a = Some i1 \<and> bw1 a = Some b1 \<and> iface2 a = Some i2 \<and> bw2 a = Some b2 \<and>
               issued (snd (main run a s)) = issued s @ [change_argv i1 b1] @ tail1 @ tail2 \<and>
               (tail1 = [] \<or> tail1 = [add_argv i1 b1]) \<and>
               (tail2 = [] \<or> tail2 = [change_argv i2 b2] \<or>
                tail2 = [change_argv i2 b2, add_argv i2 b2]) \<and>
               ((\<exists>r t. configure_interface run (Some i1) (Some b1) s = (Inr r, t)) \<longrightarrow>
                  tail2 \<noteq> [])"
    if ok: "validate_args a = None"
  proof -
    from ok valid obtain i1 b1 i2 b2
      where f: "iface1 a = Some i1" "bw1 a = Some b1" "iface2 a = Some i2" "bw2 a = Some b2"
      by (cases "iface1 a"; cases "bw1 a"; cases "iface2 a"; cases "bw2 a") auto
    obtain q1 s1 where c1: "configure_interface run (Some i1) (Some b1) s = (q1, s1)"
      by (cases "configure_interface run (Some i1) (Some b1) s")
    obtain q2 s2 where c2: "configure_interface run (Some i2) (Some b2) s1 = (q2, s2)"
      by (cases "configure_interface run (Some i2) (Some b2) s1")
    from configure_interface_issued [of run i1 b1 s] c1
    obtain tail1 where t1: "issued s1 = issued s @ [change_argv i1 b1] @ tail1"
        "tail1 = [] \<or> tail1 = [add_argv i1 b1]"
      by auto
    from configure_interface_issued [of run i2 b2 s1] c2
    obtain tail2 where t2: "issued s2 = issued s1 @ tail2"
        "tail2 = [change_argv i2 b2] \<or> tail2 = [change_argv i2 b2, add_argv i2 b2]"
      by auto
    have same: "issued (snd (main run a s)) = issued (snd (handle_bandwidth_mode run a s))"
      using ok assms
      by (cases "handle_bandwidth_mode run a s"; cases "fst (handle_bandwidth_mode run a s)")
         (auto simp: main_def handle_mode_def)
    show ?thesis
    proof (cases q1)
      case (Inl e)
      then have "issued (snd (main run a s)) = issued s @ [change_argv i1 b1] @ tail1 @ []"
        using same f c1 t1 by (simp add: handle_bandwidth_mode_def)
      moreover have "\<not> (\<exists>r t. configure_interface run (Some i1) (Some b1) s = (Inr r, t))"
        using c1 Inl by simp
      ultimately show ?thesis
        using f t1(2) by blast
    next
      case (Inr r)
      then have "issued (snd (main run a s)) = issued s @ [change_argv i1 b1] @ tail1 @ tail2"
        using same f c1 c2 t1 t2 by (cases q2) (simp_all add: handle_bandwidth_mode_def)
      moreover have "tail2 \<noteq> []"
        using t2(2) by auto
      ultimately show ?thesis
        using f t1(2) t2(2) by blast
    qed
  qed
  from valid trace show ?thesis
    by blast
qed

text \<open>The bandwidths \<^verbatim>\<open>abc\<close> and \<^verbatim>\<open>-5\<close>: both reach \<^verbatim>\<open>tc\<close> as they are.\<close>

theorem bandwidth_not_checked_as_number_witness:
  "validate_args odd_bandwidth_args = None
   \<and> fst (configure_interface tool_quiet (Some ''eth0'') (Some ''abc'') start) = Inr True
   \<and> (\<exists>tail1 tail2.
        issued (snd (main tool_quiet odd_bandwidth_args start)) =
          [[''tc'', ''qdisc'', ''change'', ''dev'', ''eth0'', ''root'', ''tbf'',
            ''rate'', ''abcmbit'', ''burst'', ''256mbit'', ''latency'', ''600ms'']] @ tail1 @ tail2 \<and>
        (tail1 = [] \<or>
         tail1 = [[''tc'', ''qdisc'', ''add'', ''dev'', ''eth0'', ''root'', ''tbf'',
                   ''rate'', ''abcmbit'', ''burst'', ''256mbit'', ''latency'', ''600ms'']]) \<and>
        (tail2 = [[''tc'', ''qdisc'', ''change'', ''dev'', ''eth1'', ''root'', ''tbf'',
                   ''rate'', ''-5mbit'', ''burst'', ''256mbit'', ''latency'', ''600ms'']] \<or>
         tail2 = [[''tc'', ''qdisc'', ''change'', ''dev'', ''eth1'', ''root'', ''tbf'',
                   ''rate'', ''-5mbit'', ''burst'', ''256mbit'', ''latency'', ''600ms''],
                  [''tc'', ''qdisc'', ''add'', ''dev'', ''eth1'', ''root'', ''tbf'',
                   ''rate'', ''-5mbit'', ''burst'', ''256mbit'', ''latency'', ''600ms'']]))"
proof -
  have m: "mode odd_bandwidth_args = ''bandwidth''"
    by (simp add: odd_bandwidth_args_def)
  have f: "iface1 odd_bandwidth_args = Some ''eth0''" "bw1 odd_bandwidth_args = Some ''abc''"
    "iface2 odd_bandwidth_args = Some ''eth1''" "bw2 odd_bandwidth_args = Some ''-5''"
    by (simp_all add: odd_bandwidth_args_def)
  have ret0: "fst (configure_interface tool_quiet (Some ''eth0'') (Some ''abc'') start) = Inr True"
    by (simp add: configure_interface_def subprocess_run_def tool_quiet_def)
  then have ret: "\<exists>r t. configure_interface tool_quiet (Some ''eth0'') (Some ''abc'') start = (Inr r, t)"
    by (cases "configure_interface tool_quiet (Some ''eth0'') (Some ''abc'') start") auto
  have s0: "issued start = []"
    by (simp add: start_def)
  from bandwidth_not_checked_as_number [OF m, of tool_quiet start] f
  have v: "validate_args odd_bandwidth_args = None"
    by simp
  from bandwidth_not_checked_as_number [OF m, of tool_quiet start] v f ret s0
  have "\<exists>tail1 tail2.
        issued (snd (main tool_quiet odd_bandwidth_args start)) =
          [change_argv ''eth0'' ''abc''] @ tail1 @ tail2 \<and>
        (tail1 = [] \<or> tail1 = [add_argv ''eth0'' ''abc'']) \<and>
        (tail2 = [change_argv ''eth1'' ''-5''] \<or>
         tail2 = [change_argv ''eth1'' ''-5'', add_argv ''eth1'' ''-5''])"
    by auto
  with v ret0 show ?thesis
    by simp
qed

text \<open>The same run in full: the rates are \<^verbatim>\<open>abcmbit\<close> and \<^verbatim>\<open>-5mbit\<close>.\<close>

lemma odd_bandwidth_example:
  "main tool_quiet odd_bandwidth_args start =
     (Exited 0,
      start\<lparr>issued := [[''tc'', ''qdisc'', ''change'', ''dev'', ''eth0'', ''root'', ''tbf'',
                         ''rate'', ''abcmbit'', ''burst'', ''256mbit'', ''latency'', ''600ms''],
                        [''tc'', ''qdisc'', ''change'', ''dev'', ''eth1'', ''root'', ''tbf'',
                         ''rate'', ''-5mbit'', ''burst'', ''256mbit'', ''latency'', ''600ms'']],
            out_lines := [''Successfully modified bandwidth for eth0'',
                          ''Successfully modified bandwidth for eth1'']\<rparr>)"
  by (simp add: main_def validate_args_def handle_mode_def handle_bandwidth_mode_def
      configure_interface_def subprocess_run_def odd_bandwidth_args_def tool_quiet_def
      start_def print_out_def)




end
